theory Spec2Isabelle
  imports Main "HOL-Library.Word"
begin

section \<open>Data model\<close>

text \<open>
  Keys, seeds and signatures are byte strings whose inner structure belongs to the
  cryptographic library; they are kept as lists of byte values.
\<close>

type_synonym bytes = "nat list"

text \<open>\<^verbatim>\<open>KeyType\<close> of the library: the two algorithms and the \<^verbatim>\<open>invalid\<close> marker that
  \<^verbatim>\<open>keyTypeFromString\<close> returns and \<^verbatim>\<open>make_ValidatorKeys\<close> tests for.\<close>

datatype KeyType = invalid | secp256k1 | ed25519

datatype SecretKey = SecretKey bytes
datatype PublicKey = PublicKey bytes
datatype Seed = Seed bytes

text \<open>\<^verbatim>\<open>class ValidatorKeys\<close>: the four data members.\<close>

record ValidatorKeys =
  keyType :: KeyType
  masterSecret :: SecretKey
  validationPublicKey :: PublicKey
  sequence :: "32 word"

text \<open>\<^verbatim>\<open>struct EphemeralKeys\<close>.\<close>

record EphemeralKeys =
  seed :: Seed
  manifest :: string
  ephValidationPublicKey :: PublicKey

text \<open>\<^verbatim>\<open>ValidatorKeys::setSequence\<close>.\<close>

definition setSequence :: "ValidatorKeys \<Rightarrow> 32 word \<Rightarrow> ValidatorKeys" where
  "setSequence keys s = keys\<lparr>sequence := s\<rparr>"

text \<open>\<^verbatim>\<open>ValidatorKeys::operator==\<close>: the master secret is not compared.\<close>

definition keys_eq :: "ValidatorKeys \<Rightarrow> ValidatorKeys \<Rightarrow> bool" where
  "keys_eq lhs rhs \<longleftrightarrow>
     sequence lhs = sequence rhs \<and> keyType lhs = keyType rhs \<and>
     validationPublicKey lhs = validationPublicKey rhs"

section \<open>JSON values\<close>

text \<open>The value kinds of the JSON library (\<^verbatim>\<open>Json::ValueType\<close>). Integers are the
  library's 32-bit \<^verbatim>\<open>Int\<close> and \<^verbatim>\<open>UInt\<close>; a real number is kept by its text.\<close>

datatype json =
    JNull
  | JInt "32 word"
  | JUInt "32 word"
  | JReal string
  | JString string
  | JBool bool
  | JArray "json list"
  | JObject "(string \<times> json) list"

section \<open>Errors\<close>

text \<open>One constructor for each \<^verbatim>\<open>throw\<close> of the sources, carrying what the message
  is built from, and one for an assertion raised inside the JSON library.\<close>

datatype error =
    FailedToOpen
  | UnableToParse
  | MissingField string
  | InvalidKeyType json
  | InvalidSecret json
  | InvalidSequence json
  | JsonAssert
  | CannotCreateDirectory
  | CannotOpenKeyFile
  | RefuseOverwrite
  | SequenceNotIncreasing "32 word"
  | SequenceExhausted
  | NoCommand
  | WrongNumberOfParameters
  | UnknownCommand

section \<open>Sequence counter\<close>

text \<open>\<^verbatim>\<open>std::numeric_limits<std::uint32_t>::max ()\<close>.\<close>

definition uint32_max :: "32 word" where
  "uint32_max = 4294967295"

text \<open>
  The sequence step at the head of \<^verbatim>\<open>signManifest\<close> (main.cpp). The local
  \<^verbatim>\<open>keys\<close> object is threaded through: a \<^verbatim>\<open>throw\<close> leaves it as it was and is
  returned as \<open>Some\<close> error.
\<close>

definition advanceSequence ::
  "ValidatorKeys \<Rightarrow> 32 word option \<Rightarrow> error option \<times> ValidatorKeys" where
  "advanceSequence keys requested =
     (case requested of
        Some s \<Rightarrow>
          if s \<le> sequence keys
          then (Some (SequenceNotIncreasing (sequence keys)), keys)
          else (None, keys\<lparr>sequence := s\<rparr>)
      | None \<Rightarrow>
          if sequence keys = uint32_max
          then (Some SequenceExhausted, keys)
          else (None, keys\<lparr>sequence := sequence keys + 1\<rparr>))"

text \<open>\<^verbatim>\<open>revoke_master_keys\<close> in \<^verbatim>\<open>runCommand\<close> passes the maximum as the
  requested sequence.\<close>

definition revokeSequence :: "ValidatorKeys \<Rightarrow> error option \<times> ValidatorKeys" where
  "revokeSequence keys = advanceSequence keys (Some uint32_max)"

definition sample_keys :: "32 word \<Rightarrow> ValidatorKeys" where
  "sample_keys s =
     \<lparr>keyType = ed25519, masterSecret = SecretKey [7],
      validationPublicKey = PublicKey [7, 1], sequence = s\<rparr>"

section \<open>Library capabilities\<close>

text \<open>
  The key generation, signing, Base58, Base64 and serialisation routines come from the
  cryptographic and protocol libraries. They are taken as parameters, collected in one
  record; \<^verbatim>\<open>randomSeed ()\<close> is an explicit \<open>Seed\<close> argument of the functions that
  call it.
\<close>

datatype SField = sfSequence | sfPublicKey | sfSigningPubKey | sfSignature | sfMasterSignature

datatype STValue = STUInt32 "32 word" | STBlob bytes

record lib =
  generateKeyPair :: "KeyType \<Rightarrow> Seed \<Rightarrow> PublicKey \<times> SecretKey"
  generateSecretKey :: "KeyType \<Rightarrow> Seed \<Rightarrow> SecretKey"
  derivePublicKey :: "KeyType \<Rightarrow> SecretKey \<Rightarrow> PublicKey"
  signBytes :: "KeyType \<Rightarrow> SecretKey \<Rightarrow> bytes \<Rightarrow> bytes"
  verifyBytes :: "PublicKey \<Rightarrow> bytes \<Rightarrow> bytes \<Rightarrow> bool"
  toBase58Secret :: "SecretKey \<Rightarrow> string"
  toBase58Public :: "PublicKey \<Rightarrow> string"
  toBase58Seed :: "Seed \<Rightarrow> string"
  parseBase58Secret :: "string \<Rightarrow> SecretKey option"
  serialize :: "(SField \<times> STValue) list \<Rightarrow> bytes"
  deserialize :: "bytes \<Rightarrow> (SField \<times> STValue) list"
  base64_encode :: "bytes \<Rightarrow> string"
  base64_decode :: "string \<Rightarrow> bytes"

text \<open>Modelled from the spec: \<^verbatim>\<open>keyTypeFromString\<close> and \<^verbatim>\<open>to_string\<close> of the
  library's key type header, not among the sources. The key type of a key file is one
  of two string tags, \<open>ed25519\<close> as in the guide's sample file and \<open>secp256k1\<close>;
  any other text is no key type.\<close>

definition keyTypeFromString :: "string \<Rightarrow> KeyType" where
  "keyTypeFromString s =
     (if s = ''secp256k1'' then secp256k1
      else if s = ''ed25519'' then ed25519
      else invalid)"

text \<open>Modelled from the spec: \<^verbatim>\<open>to_string\<close> of a key type, not among the sources:
  the tag that \<^verbatim>\<open>writeToFile\<close> stores under \<open>key_type\<close>.\<close>

definition to_string :: "KeyType \<Rightarrow> string" where
  "to_string t =
     (case t of secp256k1 \<Rightarrow> ''secp256k1'' | ed25519 \<Rightarrow> ''ed25519'' | invalid \<Rightarrow> ''INVALID'')"

section \<open>JSON accessors\<close>

text \<open>A key file that parses holds a JSON object: a map from member names to values.
  \<^verbatim>\<open>jKeys[name]\<close> is the member, null when there is none.\<close>

type_synonym jobject = "string \<rightharpoonup> json"

definition isMember :: "jobject \<Rightarrow> string \<Rightarrow> bool" where
  "isMember jv name \<longleftrightarrow> jv name \<noteq> None"

definition member :: "jobject \<Rightarrow> string \<Rightarrow> json" where
  "member jv name = (case jv name of None \<Rightarrow> JNull | Some v \<Rightarrow> v)"

text \<open>
  The accessors below belong to the JSON library, which is not among the sources; the
  spec leaves the parsed record abstract. They follow the library's value kinds.
  \<^verbatim>\<open>Json::Value::isIntegral\<close>: the two integer kinds and booleans.
\<close>

fun isIntegral :: "json \<Rightarrow> bool" where
  "isIntegral (JInt _) = True"
| "isIntegral (JUInt _) = True"
| "isIntegral (JBool _) = True"
| "isIntegral _ = False"

function decimal :: "nat \<Rightarrow> string" where
  "decimal n =
     (if n < 10 then [char_of (48 + n)] else decimal (n div 10) @ [char_of (48 + n mod 10)])"
  by pat_completeness auto
termination
  by (relation "measure id") auto

text \<open>\<^verbatim>\<open>Json::Value::asString\<close>: scalars convert to text, arrays and objects raise
  the library's assertion.\<close>

fun asString :: "json \<Rightarrow> error + string" where
  "asString JNull = Inr []"
| "asString (JString s) = Inr s"
| "asString (JBool b) = Inr (if b then ''true'' else ''false'')"
| "asString (JInt i) =
     Inr (if sint i < 0 then CHR ''-'' # decimal (nat (- sint i)) else decimal (unat i))"
| "asString (JUInt u) = Inr (decimal (unat u))"
| "asString (JReal r) = Inr r"
| "asString (JArray _) = Inl JsonAssert"
| "asString (JObject _) = Inl JsonAssert"

text \<open>\<^verbatim>\<open>Json::Value::asUInt\<close>. \<^verbatim>\<open>make_ValidatorKeys\<close> calls it on integral
  values only: an unsigned value is itself, a negative \<^verbatim>\<open>Int\<close> raises the library's
  assertion, a boolean is 0 or 1. The other kinds are never passed; null is 0 and the
  rest is left as the assertion.\<close>

fun asUInt :: "json \<Rightarrow> error + 32 word" where
  "asUInt (JUInt u) = Inr u"
| "asUInt (JInt i) = (if sint i < 0 then Inl JsonAssert else Inr i)"
| "asUInt (JBool b) = Inr (if b then 1 else 0)"
| "asUInt JNull = Inr 0"
| "asUInt _ = Inl JsonAssert"

section \<open>Master identity store\<close>

text \<open>The first constructor of \<^verbatim>\<open>ValidatorKeys\<close>: a fresh key pair, sequence 0.\<close>

definition new_ValidatorKeys :: "lib \<Rightarrow> KeyType \<Rightarrow> Seed \<Rightarrow> ValidatorKeys" where
  "new_ValidatorKeys L kt sd =
     (let kp = generateKeyPair L kt sd
      in \<lparr>keyType = kt, masterSecret = snd kp, validationPublicKey = fst kp, sequence = 0\<rparr>)"

text \<open>What opening and parsing the key file gives.\<close>

datatype KeyFile = CannotOpen | Unparsable | Parsed jobject

definition requiredFields :: "string list" where
  "requiredFields = [''key_type'', ''master_secret'', ''sequence'']"

text \<open>The loop over \<^verbatim>\<open>requiredFields\<close>: the first missing one is reported.\<close>

fun checkRequired :: "jobject \<Rightarrow> string list \<Rightarrow> error option" where
  "checkRequired jKeys [] = None"
| "checkRequired jKeys (field # rest) =
     (if \<not> isMember jKeys field then Some (MissingField field)
      else checkRequired jKeys rest)"

text \<open>\<^verbatim>\<open>ValidatorKeys::make_ValidatorKeys\<close> after the file is parsed.\<close>

definition keysFromJson :: "lib \<Rightarrow> jobject \<Rightarrow> error + ValidatorKeys" where
  "keysFromJson L jKeys =
     (case checkRequired jKeys requiredFields of
        Some e \<Rightarrow> Inl e
      | None \<Rightarrow>
          (case asString (member jKeys ''key_type'') of
             Inl e \<Rightarrow> Inl e
           | Inr kts \<Rightarrow>
               let kt = keyTypeFromString kts in
               if kt = invalid then Inl (InvalidKeyType (member jKeys ''key_type''))
               else
                 (case asString (member jKeys ''master_secret'') of
                    Inl e \<Rightarrow> Inl e
                  | Inr ms \<Rightarrow>
                      (case parseBase58Secret L ms of
                         None \<Rightarrow> Inl (InvalidSecret (member jKeys ''master_secret''))
                       | Some secret \<Rightarrow>
                           let pk = derivePublicKey L kt secret in
                           if \<not> isIntegral (member jKeys ''sequence'')
                           then Inl (InvalidSequence (member jKeys ''sequence''))
                           else
                             (case asUInt (member jKeys ''sequence'') of
                                Inl e \<Rightarrow> Inl e
                              | Inr s \<Rightarrow>
                                  Inr \<lparr>keyType = kt, masterSecret = secret,
                                       validationPublicKey = pk, sequence = s\<rparr>)))))"

definition make_ValidatorKeys :: "lib \<Rightarrow> KeyFile \<Rightarrow> error + ValidatorKeys" where
  "make_ValidatorKeys L file =
     (case file of
        CannotOpen \<Rightarrow> Inl FailedToOpen
      | Unparsable \<Rightarrow> Inl UnableToParse
      | Parsed jKeys \<Rightarrow> keysFromJson L jKeys)"

text \<open>The JSON value that \<^verbatim>\<open>ValidatorKeys::writeToFile\<close> builds and prints.\<close>

definition toJson :: "lib \<Rightarrow> ValidatorKeys \<Rightarrow> jobject" where
  "toJson L keys =
     Map.empty
       (''master_secret'' \<mapsto> JString (toBase58Secret L (masterSecret keys)),
        ''validation_public_key'' \<mapsto> JString (toBase58Public L (validationPublicKey keys)),
        ''key_type'' \<mapsto> JString (to_string (keyType keys)),
        ''sequence'' \<mapsto> JUInt (sequence keys))"

text \<open>
  What \<^verbatim>\<open>writeToFile\<close> asks of the file system, as it finds it: whether the key
  file has a parent path, whether that exists, whether \<^verbatim>\<open>create_directories\<close>
  sets its error code, whether the parent is a directory afterwards, and whether
  opening the file for writing fails. \<open>keyFileExists\<close> is what \<^verbatim>\<open>createKeyFile\<close>
  tests.
\<close>

record fileenv =
  parentPathEmpty :: bool
  parentExists :: bool
  createDirectoriesFails :: bool
  parentIsDirectory :: bool
  openFails :: bool
  keyFileExists :: bool

text \<open>\<^verbatim>\<open>ValidatorKeys::writeToFile\<close>: the new state of the key file, or the error.
  The file written is taken to parse back to the value printed.\<close>

definition writeToFile :: "lib \<Rightarrow> ValidatorKeys \<Rightarrow> fileenv \<Rightarrow> error + KeyFile" where
  "writeToFile L keys env =
     (let jv = toJson L keys;
          ec = (\<not> parentExists env \<and> createDirectoriesFails env)
      in if \<not> parentPathEmpty env \<and> (ec \<or> \<not> parentIsDirectory env)
         then Inl CannotCreateDirectory
         else if openFails env then Inl CannotOpenKeyFile
         else Inr (Parsed jv))"

section \<open>Manifest builder\<close>

text \<open>A structured object of the protocol library, with the fields a manifest uses:
  a map from field to value. Its serialisation lists the fields present in the
  canonical order, which is the order of \<open>canonical_fields\<close>.\<close>

type_synonym STObject = "SField \<rightharpoonup> STValue"

definition canonical_fields :: "SField list" where
  "canonical_fields =
     [sfSequence, sfPublicKey, sfSigningPubKey, sfSignature, sfMasterSignature]"

definition isSigningField :: "SField \<Rightarrow> bool" where
  "isSigningField f \<longleftrightarrow> f \<noteq> sfSignature \<and> f \<noteq> sfMasterSignature"

text \<open>\<^verbatim>\<open>STObject::add\<close> (\<open>withAll\<close>) and the listing that leaves the signature
  fields out.\<close>

definition fields_of :: "bool \<Rightarrow> STObject \<Rightarrow> (SField \<times> STValue) list" where
  "fields_of withAll st =
     List.map_filter
       (\<lambda>f. if withAll \<or> isSigningField f then map_option (Pair f) (st f) else None)
       canonical_fields"

text \<open>\<^verbatim>\<open>HashPrefix::manifest\<close>: the characters M, A, N and a zero byte.\<close>

definition HashPrefix_manifest :: bytes where
  "HashPrefix_manifest = [77, 65, 78, 0]"

text \<open>
  Modelled from the spec: the byte buffer that \<^verbatim>\<open>sign\<close> and \<^verbatim>\<open>verify\<close> of the
  protocol library (\<^verbatim>\<open>ripple/protocol/Sign.h\<close>, not among the sources) work on. By
  the data model of the spec each signature is over the record with the sequence,
  master public key and ephemeral public key fields (the pre-signature record); the
  unit test verifies both signatures on the one decoded object that holds both
  signature fields. The buffer is the hash prefix, then the fields that are not
  signatures.
\<close>

definition signingData :: "lib \<Rightarrow> STObject \<Rightarrow> bytes \<Rightarrow> bytes" where
  "signingData L st prefix = prefix @ serialize L (fields_of False st)"

text \<open>Modelled from the spec: \<^verbatim>\<open>sign\<close> on a structured object, not among the
  sources: the signature of the signing data is stored in the signature field.\<close>

definition sign ::
  "lib \<Rightarrow> STObject \<Rightarrow> bytes \<Rightarrow> KeyType \<Rightarrow> SecretKey \<Rightarrow> SField \<Rightarrow> STObject" where
  "sign L st prefix kt sk sigField =
     st(sigField \<mapsto> STBlob (signBytes L kt sk (signingData L st prefix)))"

text \<open>Modelled from the spec: \<^verbatim>\<open>verify\<close> on a structured object, not among the
  sources: the signature field must be there and hold a signature of the signing
  data.\<close>

definition verify :: "lib \<Rightarrow> STObject \<Rightarrow> bytes \<Rightarrow> PublicKey \<Rightarrow> SField \<Rightarrow> bool" where
  "verify L st prefix pk sigField =
     (case st sigField of
        Some (STBlob sig) \<Rightarrow> verifyBytes L pk (signingData L st prefix) sig
      | _ \<Rightarrow> False)"

fun pkBytes :: "PublicKey \<Rightarrow> bytes" where
  "pkBytes (PublicKey b) = b"

text \<open>The object of \<^verbatim>\<open>createEphemeralKeys\<close> before signing, given the ephemeral
  public key, and after the two calls of \<^verbatim>\<open>sign\<close>.\<close>

definition unsignedManifest :: "ValidatorKeys \<Rightarrow> PublicKey \<Rightarrow> STObject" where
  "unsignedManifest keys spk =
     Map.empty
       (sfSequence \<mapsto> STUInt32 (sequence keys),
        sfPublicKey \<mapsto> STBlob (pkBytes (validationPublicKey keys)),
        sfSigningPubKey \<mapsto> STBlob (pkBytes spk))"

definition ephemeralSigned :: "lib \<Rightarrow> ValidatorKeys \<Rightarrow> KeyType \<Rightarrow> Seed \<Rightarrow> STObject" where
  "ephemeralSigned L keys ephKeyType sd =
     (let ssk = generateSecretKey L ephKeyType sd;
          spk = derivePublicKey L ephKeyType ssk
      in sign L (unsignedManifest keys spk) HashPrefix_manifest ephKeyType ssk sfSignature)"

definition signedManifest :: "lib \<Rightarrow> ValidatorKeys \<Rightarrow> KeyType \<Rightarrow> Seed \<Rightarrow> STObject" where
  "signedManifest L keys ephKeyType sd =
     sign L (ephemeralSigned L keys ephKeyType sd) HashPrefix_manifest
       (keyType keys) (masterSecret keys) sfMasterSignature"

text \<open>
  \<^verbatim>\<open>ValidatorKeys::createEphemeralKeys\<close>, a \<^verbatim>\<open>const\<close> member function: the result
  and the object it was called on, as it is after the call.
\<close>

definition createEphemeralKeys ::
  "lib \<Rightarrow> ValidatorKeys \<Rightarrow> KeyType \<Rightarrow> Seed \<Rightarrow> EphemeralKeys \<times> ValidatorKeys" where
  "createEphemeralKeys L keys ephKeyType sd =
     (let ssk = generateSecretKey L ephKeyType sd;
          spk = derivePublicKey L ephKeyType ssk;
          st = signedManifest L keys ephKeyType sd;
          m = serialize L (fields_of True st)
      in (\<lparr>seed = sd, manifest = base64_encode L m, ephValidationPublicKey = spk\<rparr>, keys))"

text \<open>Reading a manifest back, as the unit test does: Base64, then the fields.\<close>

definition decodeManifest :: "lib \<Rightarrow> string \<Rightarrow> STObject" where
  "decodeManifest L m = map_of (deserialize L (base64_decode L m))"

section \<open>Commands\<close>

text \<open>What \<^verbatim>\<open>signManifest\<close> prints: whether the revocation warning is shown, the
  seed, the ephemeral public key, the sequence and the manifest in lines.\<close>

record printed =
  revokeWarning :: bool
  validation_seed :: string
  validation_public_key :: string
  sequence_number :: "32 word"
  validation_manifest :: "string list"

text \<open>The loop that prints the manifest \<open>len\<close> characters a line.\<close>

function wrapLines :: "nat \<Rightarrow> string \<Rightarrow> string list" where
  "wrapLines len m =
     (if len = 0 \<or> m = [] then [] else take len m # wrapLines len (drop len m))"
  by pat_completeness auto
termination
  by (relation "measure (\<lambda>(len, m). length m)") auto

text \<open>
  \<^verbatim>\<open>signManifest\<close> of main.cpp: what was printed (if the run got that far), the
  error thrown (if any) and the key file afterwards.
\<close>

definition signManifest ::
  "lib \<Rightarrow> Seed \<Rightarrow> fileenv \<Rightarrow> KeyFile \<Rightarrow> 32 word option \<Rightarrow>
     printed option \<times> error option \<times> KeyFile" where
  "signManifest L sd env file requested =
     (case make_ValidatorKeys L file of
        Inl e \<Rightarrow> (None, Some e, file)
      | Inr loaded \<Rightarrow>
          (case advanceSequence loaded requested of
             (Some e, _) \<Rightarrow> (None, Some e, file)
           | (None, keys) \<Rightarrow>
               let ephemeralKeys = fst (createEphemeralKeys L keys secp256k1 sd);
                   out = \<lparr>revokeWarning = (sequence keys = uint32_max),
                          validation_seed = toBase58Seed L (seed ephemeralKeys),
                          validation_public_key =
                            toBase58Public L (ephValidationPublicKey ephemeralKeys),
                          sequence_number = sequence keys,
                          validation_manifest = wrapLines 72 (manifest ephemeralKeys)\<rparr>
               in (case writeToFile L keys env of
                     Inl e \<Rightarrow> (Some out, Some e, file)
                   | Inr file' \<Rightarrow> (Some out, None, file'))))"

text \<open>\<^verbatim>\<open>createKeyFile\<close>.\<close>

definition createKeyFile ::
  "lib \<Rightarrow> Seed \<Rightarrow> fileenv \<Rightarrow> KeyFile \<Rightarrow> error option \<times> KeyFile" where
  "createKeyFile L sd env file =
     (if keyFileExists env then (Some RefuseOverwrite, file)
      else
        (case writeToFile L (new_ValidatorKeys L ed25519 sd) env of
           Inl e \<Rightarrow> (Some e, file)
         | Inr file' \<Rightarrow> (None, file')))"

text \<open>\<^verbatim>\<open>runCommand\<close>.\<close>

definition runCommand ::
  "lib \<Rightarrow> Seed \<Rightarrow> fileenv \<Rightarrow> KeyFile \<Rightarrow> string list \<Rightarrow>
     printed option \<times> error option \<times> KeyFile" where
  "runCommand L sd env file args =
     (if args = [] then (None, Some NoCommand, file)
      else if length args \<noteq> 1 then (None, Some WrongNumberOfParameters, file)
      else if args ! 0 = ''create_master_keys''
        then (case createKeyFile L sd env file of (e, file') \<Rightarrow> (None, e, file'))
      else if args ! 0 = ''create_signing_keys''
        then signManifest L sd env file None
      else if args ! 0 = ''revoke_master_keys''
        then signManifest L sd env file (Some uint32_max)
      else (None, Some UnknownCommand, file))"

section \<open>A small instance of the library\<close>

text \<open>
  A stand-in for the library on which the definitions can be run: a public key is the
  reversed secret behind a tag of the key type, a signature is the public key followed
  by the message, and the encodings are the plainest invertible ones on small byte
  values.
\<close>

fun toy_tag :: "KeyType \<Rightarrow> nat" where
  "toy_tag invalid = 0"
| "toy_tag secp256k1 = 1"
| "toy_tag ed25519 = 2"

fun toy_secret :: "KeyType \<Rightarrow> Seed \<Rightarrow> SecretKey" where
  "toy_secret kt (Seed b) = SecretKey (toy_tag kt # b)"

fun toy_derive :: "KeyType \<Rightarrow> SecretKey \<Rightarrow> PublicKey" where
  "toy_derive kt (SecretKey b) = PublicKey (toy_tag kt # rev b)"

fun toy_sign :: "KeyType \<Rightarrow> SecretKey \<Rightarrow> bytes \<Rightarrow> bytes" where
  "toy_sign kt (SecretKey b) m = toy_tag kt # rev b @ m"

fun toy_verify :: "PublicKey \<Rightarrow> bytes \<Rightarrow> bytes \<Rightarrow> bool" where
  "toy_verify (PublicKey p) m s \<longleftrightarrow> s = p @ m"

fun toy_b58_secret :: "SecretKey \<Rightarrow> string" where
  "toy_b58_secret (SecretKey b) = CHR ''p'' # map char_of b"

fun toy_b58_public :: "PublicKey \<Rightarrow> string" where
  "toy_b58_public (PublicKey b) = CHR ''n'' # map char_of b"

fun toy_b58_seed :: "Seed \<Rightarrow> string" where
  "toy_b58_seed (Seed b) = CHR ''s'' # map char_of b"

fun toy_parse_secret :: "string \<Rightarrow> SecretKey option" where
  "toy_parse_secret [] = None"
| "toy_parse_secret (c # cs) =
     (if c = CHR ''p'' then Some (SecretKey (map of_char cs)) else None)"

fun toy_code :: "SField \<Rightarrow> nat" where
  "toy_code sfSequence = 0"
| "toy_code sfPublicKey = 1"
| "toy_code sfSigningPubKey = 2"
| "toy_code sfSignature = 3"
| "toy_code sfMasterSignature = 4"

definition toy_field :: "nat \<Rightarrow> SField" where
  "toy_field c =
     (if c = 0 then sfSequence else if c = 1 then sfPublicKey
      else if c = 2 then sfSigningPubKey else if c = 3 then sfSignature
      else sfMasterSignature)"

fun toy_serialize :: "(SField \<times> STValue) list \<Rightarrow> bytes" where
  "toy_serialize [] = []"
| "toy_serialize ((f, STUInt32 w) # fs) = toy_code f # 0 # unat w # toy_serialize fs"
| "toy_serialize ((f, STBlob b) # fs) = toy_code f # 1 # length b # b @ toy_serialize fs"

function toy_deserialize :: "bytes \<Rightarrow> (SField \<times> STValue) list" where
  "toy_deserialize bs =
     (case bs of
        c # k # n # rest \<Rightarrow>
          if k = 0 then (toy_field c, STUInt32 (of_nat n)) # toy_deserialize rest
          else (toy_field c, STBlob (take n rest)) # toy_deserialize (drop n rest)
      | _ \<Rightarrow> [])"
  by pat_completeness auto
termination
  by (relation "measure length") auto

definition toy :: lib where
  "toy =
     \<lparr>generateKeyPair = (\<lambda>kt sd. (toy_derive kt (toy_secret kt sd), toy_secret kt sd)),
      generateSecretKey = toy_secret,
      derivePublicKey = toy_derive,
      signBytes = toy_sign,
      verifyBytes = toy_verify,
      toBase58Secret = toy_b58_secret,
      toBase58Public = toy_b58_public,
      toBase58Seed = toy_b58_seed,
      parseBase58Secret = toy_parse_secret,
      serialize = toy_serialize,
      deserialize = toy_deserialize,
      base64_encode = map char_of,
      base64_decode = map of_char\<rparr>"

text \<open>An identity over the instance, with its public key derived from its secret.\<close>

definition toy_keys :: "KeyType \<Rightarrow> 32 word \<Rightarrow> ValidatorKeys" where
  "toy_keys kt s =
     \<lparr>keyType = kt, masterSecret = SecretKey [5, 6],
      validationPublicKey = toy_derive kt (SecretKey [5, 6]), sequence = s\<rparr>"

text \<open>The library reads the manifest of \<open>createEphemeralKeys\<close> back: decoding the
  Base64 text and the serialised fields gives the fields that were written.\<close>

definition manifestReadable :: "lib \<Rightarrow> ValidatorKeys \<Rightarrow> KeyType \<Rightarrow> Seed \<Rightarrow> bool" where
  "manifestReadable L keys ephKeyType sd \<longleftrightarrow>
     (let fs = fields_of True (signedManifest L keys ephKeyType sd)
      in deserialize L (base64_decode L (base64_encode L (serialize L fs))) = fs)"

text \<open>The fields of the manifest that are there before either signature.\<close>

definition preSignatureRecord :: "ValidatorKeys \<Rightarrow> PublicKey \<Rightarrow> (SField \<times> STValue) list" where
  "preSignatureRecord keys spk =
     [(sfSequence, STUInt32 (sequence keys)),
      (sfPublicKey, STBlob (pkBytes (validationPublicKey keys))),
      (sfSigningPubKey, STBlob (pkBytes spk))]"

text \<open>A key file with the three required members.\<close>

definition sample_record :: "json \<Rightarrow> json \<Rightarrow> json \<Rightarrow> jobject" where
  "sample_record kt ms sq =
     Map.empty(''key_type'' \<mapsto> kt, ''master_secret'' \<mapsto> ms, ''sequence'' \<mapsto> sq)"

text \<open>A file system in which the key file exists and can be written.\<close>

definition sample_env :: fileenv where
  "sample_env =
     \<lparr>parentPathEmpty = False, parentExists = True, createDirectoriesFails = False,
      parentIsDirectory = True, openFails = False, keyFileExists = True\<rparr>"

section \<open>Properties of the sequence counter\<close>

lemma toy_load_saved_any:
  "kt \<noteq> invalid \<Longrightarrow>
     make_ValidatorKeys toy (Parsed (toJson toy (toy_keys kt s))) = Inr (toy_keys kt s)"
  by (cases kt)
    (simp_all add: make_ValidatorKeys_def keysFromJson_def requiredFields_def isMember_def
      member_def toJson_def toy_def toy_keys_def keyTypeFromString_def to_string_def)

text \<open>
  C1 (as the code has it). Revoking an identity whose sequence is already 4294967295
  fails, the identity stays as it was, and the error is the one of a requested
  sequence that does not exceed the current one (\<open>SequenceNotIncreasing\<close>); the
  \<open>revoke_master_keys\<close> command on a key file holding such an identity ends with
  that error, prints nothing and leaves the key file as it was.
\<close>

theorem revoke_revoked_fails:
  "sequence keys = uint32_max \<Longrightarrow>
     revokeSequence keys = (Some (SequenceNotIncreasing uint32_max), keys) \<and>
     (make_ValidatorKeys L file = Inr keys \<longrightarrow>
        runCommand L sd env file [''revoke_master_keys''] =
          (None, Some (SequenceNotIncreasing uint32_max), file))"
  by (simp add: revokeSequence_def advanceSequence_def runCommand_def signManifest_def)

theorem revoke_revoked_fails_witness:
  "sequence (toy_keys ed25519 4294967295) = uint32_max \<and>
   revokeSequence (toy_keys ed25519 4294967295) =
     (Some (SequenceNotIncreasing 4294967295), toy_keys ed25519 4294967295) \<and>
   runCommand toy (Seed [9]) sample_env (Parsed (toJson toy (toy_keys ed25519 4294967295)))
       [''revoke_master_keys''] =
     (None, Some (SequenceNotIncreasing 4294967295),
      Parsed (toJson toy (toy_keys ed25519 4294967295)))"
proof -
  have s: "sequence (toy_keys ed25519 4294967295) = uint32_max"
    by (simp add: toy_keys_def uint32_max_def)
  have l: "make_ValidatorKeys toy (Parsed (toJson toy (toy_keys ed25519 4294967295))) =
      Inr (toy_keys ed25519 4294967295)"
    by (rule toy_load_saved_any) simp
  show ?thesis
    using revoke_revoked_fails [OF s, of toy
        "Parsed (toJson toy (toy_keys ed25519 4294967295))" "Seed [9]" sample_env] s l
    by (simp add: uint32_max_def)
qed

text \<open>
  C1 (as the claim states it) fails: at sequence 4294967295 the error of
  \<open>revokeSequence\<close> is not \<open>SequenceExhausted\<close>.
\<close>

theorem revoke_revoked_not_exhausted:
  "sequence (sample_keys 4294967295) = 4294967295 \<and>
   fst (revokeSequence (sample_keys 4294967295)) \<noteq> Some SequenceExhausted"
  by (simp add: revokeSequence_def advanceSequence_def sample_keys_def uint32_max_def)

text \<open>
  C2. With a requested sequence \<open>s\<close>, the step succeeds exactly when \<open>s\<close> exceeds
  the current sequence, and then the sequence is \<open>s\<close>; otherwise it fails with
  \<open>SequenceNotIncreasing\<close> and the identity is unchanged, in memory and in the key
  file of \<open>signManifest\<close>.
\<close>

theorem advance_requested:
  "(fst (advanceSequence keys (Some s)) = None \<longleftrightarrow> sequence keys < s) \<and>
   (sequence keys < s \<longrightarrow>
      advanceSequence keys (Some s) = (None, keys\<lparr>sequence := s\<rparr>)) \<and>
   (\<not> sequence keys < s \<longrightarrow>
      advanceSequence keys (Some s) =
        (Some (SequenceNotIncreasing (sequence keys)), keys) \<and>
      (make_ValidatorKeys L file = Inr keys \<longrightarrow>
         signManifest L sd env file (Some s) =
           (None, Some (SequenceNotIncreasing (sequence keys)), file)))"
  by (auto simp: advanceSequence_def signManifest_def not_less)

theorem advance_requested_witness:
  "advanceSequence (toy_keys ed25519 10) (Some 11) = (None, toy_keys ed25519 11) \<and>
   advanceSequence (toy_keys ed25519 10) (Some 5) =
     (Some (SequenceNotIncreasing 10), toy_keys ed25519 10) \<and>
   signManifest toy (Seed [9]) sample_env (Parsed (toJson toy (toy_keys ed25519 10))) (Some 5) =
     (None, Some (SequenceNotIncreasing 10), Parsed (toJson toy (toy_keys ed25519 10)))"
proof -
  have l: "make_ValidatorKeys toy (Parsed (toJson toy (toy_keys ed25519 10))) =
      Inr (toy_keys ed25519 10)"
    by (rule toy_load_saved_any) simp
  show ?thesis
    using advance_requested [of "toy_keys ed25519 10" 11]
      advance_requested [of "toy_keys ed25519 10" 5 toy
        "Parsed (toJson toy (toy_keys ed25519 10))" "Seed [9]" sample_env] l
    by (simp add: toy_keys_def)
qed

text \<open>
  C3. Without a requested sequence, the step gives the current sequence plus one
  (no wrap-around) when the sequence is below 4294967295, and fails with
  \<open>SequenceExhausted\<close> exactly when the sequence is 4294967295.
\<close>

theorem advance_default:
  "(sequence keys < uint32_max \<longrightarrow>
      advanceSequence keys None = (None, keys\<lparr>sequence := sequence keys + 1\<rparr>) \<and>
      unat (sequence (snd (advanceSequence keys None))) = unat (sequence keys) + 1) \<and>
   (fst (advanceSequence keys None) = Some SequenceExhausted \<longleftrightarrow>
      sequence keys = uint32_max) \<and>
   (sequence keys = uint32_max \<longrightarrow>
      advanceSequence keys None = (Some SequenceExhausted, keys))"
proof -
  have "unat (sequence keys + 1) = unat (sequence keys) + 1"
    if "sequence keys < uint32_max"
    using that by (simp add: uint32_max_def word_less_nat_alt unat_word_ariths)
  then show ?thesis by (auto simp: advanceSequence_def)
qed

theorem advance_default_witness:
  "advanceSequence (sample_keys 0) None = (None, sample_keys 1) \<and>
   advanceSequence (sample_keys 4294967295) None =
     (Some SequenceExhausted, sample_keys 4294967295)"
  using advance_default [of "sample_keys 0"] advance_default [of "sample_keys 4294967295"]
  by (simp add: sample_keys_def uint32_max_def)

section \<open>Properties of the master identity store\<close>

lemma checkRequired_None:
  "checkRequired jKeys requiredFields = None \<longleftrightarrow>
     jKeys ''key_type'' \<noteq> None \<and> jKeys ''master_secret'' \<noteq> None \<and> jKeys ''sequence'' \<noteq> None"
  by (simp add: requiredFields_def isMember_def)

lemma keysFromJson_Inr:
  "keysFromJson L jKeys = Inr keys \<Longrightarrow>
     \<exists>kts ms s. checkRequired jKeys requiredFields = None \<and>
       asString (member jKeys ''key_type'') = Inr kts \<and>
       keyTypeFromString kts \<noteq> invalid \<and>
       asString (member jKeys ''master_secret'') = Inr ms \<and>
       parseBase58Secret L ms = Some (masterSecret keys) \<and>
       isIntegral (member jKeys ''sequence'') \<and>
       asUInt (member jKeys ''sequence'') = Inr s \<and>
       keys = \<lparr>keyType = keyTypeFromString kts, masterSecret = masterSecret keys,
          validationPublicKey = derivePublicKey L (keyTypeFromString kts) (masterSecret keys),
          sequence = s\<rparr>"
  by (auto simp: keysFromJson_def Let_def split: option.splits sum.splits if_splits)

lemma keysFromJson_ignores_public_key:
  "keysFromJson L (jKeys(''validation_public_key'' := v)) = keysFromJson L jKeys"
proof -
  have m: "member (jKeys(''validation_public_key'' := v)) ''key_type'' = member jKeys ''key_type''"
    "member (jKeys(''validation_public_key'' := v)) ''master_secret'' =
       member jKeys ''master_secret''"
    "member (jKeys(''validation_public_key'' := v)) ''sequence'' = member jKeys ''sequence''"
    by (simp_all add: member_def)
  have c: "checkRequired (jKeys(''validation_public_key'' := v)) requiredFields =
      checkRequired jKeys requiredFields"
    by (simp add: requiredFields_def isMember_def)
  show ?thesis
    unfolding keysFromJson_def c m by (rule refl)
qed

text \<open>
  C6. For every key file loaded by \<open>make_ValidatorKeys\<close>, the public key of the
  identity is the one derived from the decoded secret and the key type, and the
  \<open>validation_public_key\<close> member of the file has no influence: with any other value
  there, or with none, the same identity is loaded.
\<close>

theorem loaded_key_is_derived:
  "make_ValidatorKeys L (Parsed jKeys) = Inr keys \<Longrightarrow>
     validationPublicKey keys = derivePublicKey L (keyType keys) (masterSecret keys) \<and>
     make_ValidatorKeys L (Parsed (jKeys(''validation_public_key'' := v))) = Inr keys"
proof -
  assume a: "make_ValidatorKeys L (Parsed jKeys) = Inr keys"
  then have k: "keysFromJson L jKeys = Inr keys" by (simp add: make_ValidatorKeys_def)
  from keysFromJson_Inr [OF k] obtain kts s where
    "keys = \<lparr>keyType = keyTypeFromString kts, masterSecret = masterSecret keys,
          validationPublicKey = derivePublicKey L (keyTypeFromString kts) (masterSecret keys),
          sequence = s\<rparr>" by blast
  then have "validationPublicKey keys = derivePublicKey L (keyType keys) (masterSecret keys)"
    by (metis ValidatorKeys.select_convs(1) ValidatorKeys.select_convs(3))
  with k show ?thesis
    by (simp add: make_ValidatorKeys_def keysFromJson_ignores_public_key)
qed

lemma keyTypeFromString_to_string: "keyTypeFromString (to_string kt) = kt"
  by (cases kt) (simp_all add: keyTypeFromString_def to_string_def)

text \<open>
  C10. A key file with a valid key type, a secret that decodes and the sequence
  4294967295 loads, and the identity loaded has that sequence: there is no bound on
  the sequence below the 32-bit maximum.
\<close>

theorem load_revoked_sequence:
  "jKeys ''key_type'' = Some (JString (to_string kt)) \<Longrightarrow> kt \<noteq> invalid \<Longrightarrow>
   jKeys ''master_secret'' = Some (JString ms) \<Longrightarrow>
   parseBase58Secret L ms = Some secret \<Longrightarrow>
   jKeys ''sequence'' = Some (JUInt 4294967295) \<Longrightarrow>
   make_ValidatorKeys L (Parsed jKeys) =
     Inr \<lparr>keyType = kt, masterSecret = secret,
          validationPublicKey = derivePublicKey L kt secret, sequence = uint32_max\<rparr>"
  by (simp add: make_ValidatorKeys_def keysFromJson_def requiredFields_def isMember_def
      member_def keyTypeFromString_to_string uint32_max_def)

text \<open>
  C7. For every identity of either key type and any sequence, whose public key is the
  one derived from its secret and whose secret the Base58 decoder reads back from its
  encoding, loading what \<open>writeToFile\<close> wrote succeeds and gives an identity equal
  in sequence, key type and public key (and in the secret too).
\<close>

theorem save_load_roundtrip:
  "keyType keys \<noteq> invalid \<Longrightarrow>
   validationPublicKey keys = derivePublicKey L (keyType keys) (masterSecret keys) \<Longrightarrow>
   parseBase58Secret L (toBase58Secret L (masterSecret keys)) = Some (masterSecret keys) \<Longrightarrow>
   (\<exists>keys2. make_ValidatorKeys L (Parsed (toJson L keys)) = Inr keys2 \<and> keys_eq keys keys2 \<and>
      masterSecret keys2 = masterSecret keys) \<and>
   (\<forall>env f. writeToFile L keys env = Inr f \<longrightarrow> make_ValidatorKeys L f = Inr keys)"
proof -
  assume a: "keyType keys \<noteq> invalid"
    "validationPublicKey keys = derivePublicKey L (keyType keys) (masterSecret keys)"
    "parseBase58Secret L (toBase58Secret L (masterSecret keys)) = Some (masterSecret keys)"
  have l: "make_ValidatorKeys L (Parsed (toJson L keys)) = Inr keys"
    using a
    by (simp add: make_ValidatorKeys_def keysFromJson_def requiredFields_def isMember_def
        member_def keyTypeFromString_to_string toJson_def Let_def)
  have w: "make_ValidatorKeys L f = Inr keys" if "writeToFile L keys env = Inr f" for env f
    using that l by (auto simp: writeToFile_def Let_def split: if_splits)
  from l w show ?thesis by (auto simp: keys_eq_def)
qed


lemma toy_load_saved:
  "make_ValidatorKeys toy (Parsed (toJson toy (toy_keys ed25519 3))) = Inr (toy_keys ed25519 3)"
  by (simp add: make_ValidatorKeys_def keysFromJson_def requiredFields_def isMember_def
      member_def toJson_def toy_def toy_keys_def keyTypeFromString_def to_string_def)

theorem loaded_key_is_derived_witness:
  "make_ValidatorKeys toy (Parsed (toJson toy (toy_keys ed25519 3))) = Inr (toy_keys ed25519 3) \<and>
   validationPublicKey (toy_keys ed25519 3) = PublicKey [2, 6, 5] \<and>
   derivePublicKey toy ed25519 (SecretKey [5, 6]) = PublicKey [2, 6, 5] \<and>
   make_ValidatorKeys toy
     (Parsed ((toJson toy (toy_keys ed25519 3))
        (''validation_public_key'' := Some (JString ''nJunk'')))) = Inr (toy_keys ed25519 3)"
  using loaded_key_is_derived [OF toy_load_saved, of "Some (JString ''nJunk'')"] toy_load_saved
  by (simp add: toy_def toy_keys_def)

theorem load_revoked_sequence_witness:
  "make_ValidatorKeys toy
     (Parsed (sample_record (JString ''ed25519'') (JString (CHR ''p'' # map char_of [5, 6 :: nat]))
        (JUInt 4294967295))) = Inr (toy_keys ed25519 4294967295)"
  using load_revoked_sequence [of
      "sample_record (JString ''ed25519'') (JString (CHR ''p'' # map char_of [5, 6 :: nat]))
        (JUInt 4294967295)"
      ed25519 "CHR ''p'' # map char_of [5, 6 :: nat]" toy "SecretKey [5, 6]"]
  by (simp add: sample_record_def to_string_def toy_def toy_keys_def uint32_max_def)

theorem save_load_roundtrip_witness:
  "make_ValidatorKeys toy (Parsed (toJson toy (toy_keys secp256k1 4294967295))) =
     Inr (toy_keys secp256k1 4294967295) \<and>
   keys_eq (toy_keys secp256k1 4294967295) (toy_keys secp256k1 4294967295)"
  using save_load_roundtrip [of "toy_keys secp256k1 4294967295" toy]
  by (auto simp: toy_def toy_keys_def keys_eq_def)

text \<open>
  C8 (as the code has it). \<open>make_ValidatorKeys\<close> checks a parsed key file in this
  order and reports the first failure: a missing \<open>key_type\<close>, then a missing
  \<open>master_secret\<close>, then a missing \<open>sequence\<close>; then, for a key type and a
  secret that convert to text, a key type that is not one of the two tags, whatever
  the secret and the sequence are; then a secret that does not decode, whatever the
  sequence is; then a sequence that is not of an integral JSON kind.
\<close>

theorem load_validation_order:
  "(jKeys ''key_type'' = None \<longrightarrow>
      make_ValidatorKeys L (Parsed jKeys) = Inl (MissingField ''key_type'')) \<and>
   (jKeys ''key_type'' \<noteq> None \<and> jKeys ''master_secret'' = None \<longrightarrow>
      make_ValidatorKeys L (Parsed jKeys) = Inl (MissingField ''master_secret'')) \<and>
   (jKeys ''key_type'' \<noteq> None \<and> jKeys ''master_secret'' \<noteq> None \<and>
    jKeys ''sequence'' = None \<longrightarrow>
      make_ValidatorKeys L (Parsed jKeys) = Inl (MissingField ''sequence'')) \<and>
   (jKeys ''key_type'' \<noteq> None \<and> jKeys ''master_secret'' \<noteq> None \<and>
    jKeys ''sequence'' \<noteq> None \<and>
    asString (member jKeys ''key_type'') = Inr kts \<longrightarrow>
      (keyTypeFromString kts = invalid \<longrightarrow>
         make_ValidatorKeys L (Parsed jKeys) = Inl (InvalidKeyType (member jKeys ''key_type''))) \<and>
      (keyTypeFromString kts \<noteq> invalid \<and>
       asString (member jKeys ''master_secret'') = Inr ms \<longrightarrow>
         (parseBase58Secret L ms = None \<longrightarrow>
            make_ValidatorKeys L (Parsed jKeys) =
              Inl (InvalidSecret (member jKeys ''master_secret''))) \<and>
         (parseBase58Secret L ms \<noteq> None \<and> \<not> isIntegral (member jKeys ''sequence'') \<longrightarrow>
            make_ValidatorKeys L (Parsed jKeys) =
              Inl (InvalidSequence (member jKeys ''sequence'')))))"
  by (auto simp: make_ValidatorKeys_def keysFromJson_def requiredFields_def isMember_def)

text \<open>
  C8 (as the claim states it) fails: the sequence \<open>-1\<close> is an integer that no
  unsigned 32-bit value represents, it passes the integrality test, and the load does
  not end in \<open>InvalidSequence\<close>.
\<close>

theorem negative_sequence_not_reported:
  "sint (- 1 :: 32 word) = - 1 \<and>
   make_ValidatorKeys toy
     (Parsed (sample_record (JString ''ed25519'') (JString (CHR ''p'' # map char_of [5, 6 :: nat]))
        (JInt (- 1)))) = Inl JsonAssert"
  by (simp add: make_ValidatorKeys_def keysFromJson_def requiredFields_def isMember_def
      member_def sample_record_def toy_def keyTypeFromString_def)

theorem load_validation_order_witness:
  "make_ValidatorKeys toy (Parsed (Map.empty(''dummy'' \<mapsto> JString ''field''))) =
     Inl (MissingField ''key_type'') \<and>
   make_ValidatorKeys toy (Parsed (Map.empty(''key_type'' \<mapsto> JString ''dummy keytype''))) =
     Inl (MissingField ''master_secret'') \<and>
   make_ValidatorKeys toy
     (Parsed (Map.empty(''key_type'' \<mapsto> JString ''dummy keytype'',
        ''master_secret'' \<mapsto> JString ''dummy secret''))) = Inl (MissingField ''sequence'') \<and>
   make_ValidatorKeys toy
     (Parsed (sample_record (JString ''dummy keytype'') (JString ''dummy secret'')
        (JString ''dummy sequence''))) = Inl (InvalidKeyType (JString ''dummy keytype'')) \<and>
   make_ValidatorKeys toy
     (Parsed (sample_record (JString ''ed25519'') (JString ''dummy secret'')
        (JString ''dummy sequence''))) = Inl (InvalidSecret (JString ''dummy secret'')) \<and>
   make_ValidatorKeys toy
     (Parsed (sample_record (JString ''ed25519'') (JString ''pab'')
        (JString ''dummy sequence''))) = Inl (InvalidSequence (JString ''dummy sequence''))"
  using
    load_validation_order [of "Map.empty(''dummy'' \<mapsto> JString ''field'')" toy "[]" "[]"]
    load_validation_order [of "Map.empty(''key_type'' \<mapsto> JString ''dummy keytype'')" toy "[]" "[]"]
    load_validation_order [of "Map.empty(''key_type'' \<mapsto> JString ''dummy keytype'',
        ''master_secret'' \<mapsto> JString ''dummy secret'')" toy "[]" "[]"]
    load_validation_order [of "sample_record (JString ''dummy keytype'') (JString ''dummy secret'')
        (JString ''dummy sequence'')" toy "''dummy keytype''" "''dummy secret''"]
    load_validation_order [of "sample_record (JString ''ed25519'') (JString ''dummy secret'')
        (JString ''dummy sequence'')" toy "''ed25519''" "''dummy secret''"]
    load_validation_order [of "sample_record (JString ''ed25519'') (JString ''pab'')
        (JString ''dummy sequence'')" toy "''ed25519''" "''pab''"]
  by (simp add: sample_record_def member_def keyTypeFromString_def toy_def)

section \<open>Properties of the manifest builder\<close>

lemma map_of_fields_of: "map_of (fields_of True st) = st"
proof
  fix f show "map_of (fields_of True st) f = st f"
    by (cases f)
      (simp_all add: fields_of_def canonical_fields_def map_filter_simps split: option.splits)
qed

lemma fields_of_sign:
  assumes "isSigningField sigField = False"
  shows "fields_of False (sign L st prefix kt sk sigField) = fields_of False st"
proof -
  have "(\<lambda>f. if False \<or> isSigningField f
             then map_option (Pair f) ((st(sigField \<mapsto> v)) f) else None) =
        (\<lambda>f. if False \<or> isSigningField f then map_option (Pair f) (st f) else None)" for v
    using assms by (auto simp: fun_eq_iff)
  then show ?thesis
    unfolding fields_of_def sign_def by simp
qed

lemma signingData_sign:
  "isSigningField sigField = False \<Longrightarrow>
     signingData L (sign L st prefix kt sk sigField) p = signingData L st p"
  by (simp add: signingData_def fields_of_sign)

lemma fields_of_unsigned:
  "fields_of False (unsignedManifest keys spk) = preSignatureRecord keys spk"
  by (simp add: fields_of_def canonical_fields_def isSigningField_def unsignedManifest_def
      preSignatureRecord_def map_filter_simps)

lemma signingData_signedManifest:
  "signingData L (signedManifest L keys ek sd) p =
     p @ serialize L (preSignatureRecord keys (derivePublicKey L ek (generateSecretKey L ek sd)))"
  by (simp add: signedManifest_def ephemeralSigned_def Let_def signingData_sign
      isSigningField_def)
    (simp add: signingData_def fields_of_unsigned)

lemma signingData_ephemeralSigned:
  "signingData L (ephemeralSigned L keys ek sd) p =
     p @ serialize L (preSignatureRecord keys (derivePublicKey L ek (generateSecretKey L ek sd)))"
  by (simp add: ephemeralSigned_def Let_def signingData_sign isSigningField_def)
    (simp add: signingData_def fields_of_unsigned)

lemma signedManifest_signatures:
  "signedManifest L keys ek sd sfMasterSignature =
     Some (STBlob (signBytes L (keyType keys) (masterSecret keys)
       (HashPrefix_manifest @ serialize L
          (preSignatureRecord keys (derivePublicKey L ek (generateSecretKey L ek sd)))))) \<and>
   signedManifest L keys ek sd sfSignature =
     Some (STBlob (signBytes L ek (generateSecretKey L ek sd)
       (HashPrefix_manifest @ serialize L
          (preSignatureRecord keys (derivePublicKey L ek (generateSecretKey L ek sd))))))"
proof -
  have m: "signedManifest L keys ek sd sfMasterSignature =
     Some (STBlob (signBytes L (keyType keys) (masterSecret keys)
        (signingData L (ephemeralSigned L keys ek sd) HashPrefix_manifest)))"
    by (simp add: signedManifest_def sign_def)
  have e: "signedManifest L keys ek sd sfSignature =
     Some (STBlob (signBytes L ek (generateSecretKey L ek sd)
        (signingData L (unsignedManifest keys (derivePublicKey L ek (generateSecretKey L ek sd)))
           HashPrefix_manifest)))"
    by (simp add: signedManifest_def ephemeralSigned_def Let_def sign_def)
  show ?thesis
    unfolding m e signingData_ephemeralSigned
    by (simp add: signingData_def fields_of_unsigned)
qed

text \<open>
  C4 (as the code has it). In every manifest of \<open>createEphemeralKeys\<close> the master
  signature is computed over the hash prefix and the pre-signature record (sequence,
  master public key, ephemeral public key), the same bytes the ephemeral signature is
  computed over: the ephemeral signature field is in the object handed to the second
  \<open>sign\<close> but not in the bytes signed.
\<close>

theorem master_signature_over_pre_signature_record:
  "signedManifest L keys ek sd sfMasterSignature =
     Some (STBlob (signBytes L (keyType keys) (masterSecret keys)
       (HashPrefix_manifest @ serialize L
          (preSignatureRecord keys (derivePublicKey L ek (generateSecretKey L ek sd)))))) \<and>
   signedManifest L keys ek sd sfSignature =
     Some (STBlob (signBytes L ek (generateSecretKey L ek sd)
       (HashPrefix_manifest @ serialize L
          (preSignatureRecord keys (derivePublicKey L ek (generateSecretKey L ek sd)))))) \<and>
   ephemeralSigned L keys ek sd sfSignature = signedManifest L keys ek sd sfSignature"
  using signedManifest_signatures [of L keys ek sd]
  by (simp add: signedManifest_def sign_def)

lemma decode_createEphemeralKeys:
  "manifestReadable L keys ek sd \<Longrightarrow>
     decodeManifest L (manifest (fst (createEphemeralKeys L keys ek sd))) =
       signedManifest L keys ek sd"
  by (simp add: manifestReadable_def createEphemeralKeys_def decodeManifest_def Let_def
      map_of_fields_of)

text \<open>
  C5. For an identity of either key type whose public key is derived from its secret,
  and either ephemeral key type, with a signature scheme whose signatures verify under
  the derived public key and a manifest that the library reads back as written: the
  decoded manifest holds the ephemeral and the master public key, its ephemeral
  signature verifies against the first and its master signature against the second.
\<close>

theorem manifest_signatures_verify:
  assumes scheme: "\<And>kt sk m. kt \<noteq> invalid \<Longrightarrow>
      verifyBytes L (derivePublicKey L kt sk) m (signBytes L kt sk m)"
    and readable: "manifestReadable L keys ek sd"
    and kt: "keyType keys \<noteq> invalid" and ek: "ek \<noteq> invalid"
    and derived: "validationPublicKey keys = derivePublicKey L (keyType keys) (masterSecret keys)"
    and made: "createEphemeralKeys L keys ek sd = (eph, keys')"
  shows "decodeManifest L (manifest eph) sfSigningPubKey =
           Some (STBlob (pkBytes (ephValidationPublicKey eph))) \<and>
         decodeManifest L (manifest eph) sfPublicKey =
           Some (STBlob (pkBytes (validationPublicKey keys))) \<and>
         verify L (decodeManifest L (manifest eph)) HashPrefix_manifest
           (ephValidationPublicKey eph) sfSignature \<and>
         verify L (decodeManifest L (manifest eph)) HashPrefix_manifest
           (validationPublicKey keys) sfMasterSignature"
proof -
  let ?spk = "derivePublicKey L ek (generateSecretKey L ek sd)"
  from made have eph: "eph = fst (createEphemeralKeys L keys ek sd)" by simp
  have d: "decodeManifest L (manifest eph) = signedManifest L keys ek sd"
    unfolding eph by (rule decode_createEphemeralKeys [OF readable])
  have spk: "ephValidationPublicKey eph = ?spk"
    unfolding eph by (simp add: createEphemeralKeys_def Let_def)
  have f1: "signedManifest L keys ek sd sfSigningPubKey = Some (STBlob (pkBytes ?spk))"
    by (simp add: signedManifest_def ephemeralSigned_def Let_def sign_def unsignedManifest_def)
  have f2: "signedManifest L keys ek sd sfPublicKey =
      Some (STBlob (pkBytes (validationPublicKey keys)))"
    by (simp add: signedManifest_def ephemeralSigned_def Let_def sign_def unsignedManifest_def)
  note sigs = signedManifest_signatures [of L keys ek sd]
  have v1: "verify L (signedManifest L keys ek sd) HashPrefix_manifest ?spk sfSignature"
    using scheme [OF ek] sigs
    by (simp add: verify_def signingData_signedManifest)
  have v2: "verify L (signedManifest L keys ek sd) HashPrefix_manifest
      (validationPublicKey keys) sfMasterSignature"
    using scheme [OF kt] sigs derived
    by (simp add: verify_def signingData_signedManifest)
  show ?thesis
    unfolding d spk using f1 f2 v1 v2 by simp
qed

text \<open>
  C9. \<open>createEphemeralKeys\<close> leaves the identity it is called on unchanged (key
  type, secret, public key and sequence), and the sequence field of the manifest, as
  built and as read back from the returned text, is the sequence of the identity at
  the call.
\<close>

theorem builder_leaves_identity:
  "snd (createEphemeralKeys L keys ek sd) = keys \<and>
   signedManifest L keys ek sd sfSequence = Some (STUInt32 (sequence keys)) \<and>
   (manifestReadable L keys ek sd \<longrightarrow>
      decodeManifest L (manifest (fst (createEphemeralKeys L keys ek sd))) sfSequence =
        Some (STUInt32 (sequence keys)))"
proof -
  have s: "signedManifest L keys ek sd sfSequence = Some (STUInt32 (sequence keys))"
    by (simp add: signedManifest_def ephemeralSigned_def Let_def sign_def unsignedManifest_def)
  show ?thesis
    using s by (simp add: decode_createEphemeralKeys) (simp add: createEphemeralKeys_def Let_def)
qed


lemma toy_scheme:
  "kt \<noteq> invalid \<Longrightarrow> verifyBytes toy (derivePublicKey toy kt sk) m (signBytes toy kt sk m)"
  by (cases sk) (simp add: toy_def)

lemma toy_signedManifest:
  "fields_of True (signedManifest toy (toy_keys ed25519 1) secp256k1 (Seed [9])) =
     [(sfSequence, STUInt32 1), (sfPublicKey, STBlob [2, 6, 5]),
      (sfSigningPubKey, STBlob [1, 9, 1]),
      (sfSignature, STBlob [1, 9, 1, 77, 65, 78, 0, 0, 0, 1, 1, 1, 3, 2, 6, 5, 2, 1, 3, 1, 9, 1]),
      (sfMasterSignature,
         STBlob [2, 6, 5, 77, 65, 78, 0, 0, 0, 1, 1, 1, 3, 2, 6, 5, 2, 1, 3, 1, 9, 1])]"
  by (simp add: fields_of_def canonical_fields_def isSigningField_def signedManifest_def
      ephemeralSigned_def unsignedManifest_def sign_def signingData_def toy_def toy_keys_def
      HashPrefix_manifest_def map_filter_simps)

lemma toy_readable: "manifestReadable toy (toy_keys ed25519 1) secp256k1 (Seed [9])"
  unfolding manifestReadable_def toy_signedManifest
  by (simp add: toy_def toy_field_def)


lemma toy_keys_derived:
  "validationPublicKey (toy_keys kt s) =
     derivePublicKey toy (keyType (toy_keys kt s)) (masterSecret (toy_keys kt s))"
  by (simp add: toy_keys_def toy_def)

theorem manifest_signatures_verify_witness:
  "verify toy
     (decodeManifest toy
        (manifest (fst (createEphemeralKeys toy (toy_keys ed25519 1) secp256k1 (Seed [9])))))
     HashPrefix_manifest (PublicKey [1, 9, 1]) sfSignature \<and>
   verify toy
     (decodeManifest toy
        (manifest (fst (createEphemeralKeys toy (toy_keys ed25519 1) secp256k1 (Seed [9])))))
     HashPrefix_manifest (PublicKey [2, 6, 5]) sfMasterSignature"
proof -
  have kt: "keyType (toy_keys ed25519 1) \<noteq> invalid" by (simp add: toy_keys_def)
  have ek: "secp256k1 \<noteq> invalid" by simp
  have p: "createEphemeralKeys toy (toy_keys ed25519 1) secp256k1 (Seed [9]) =
      (fst (createEphemeralKeys toy (toy_keys ed25519 1) secp256k1 (Seed [9])),
       snd (createEphemeralKeys toy (toy_keys ed25519 1) secp256k1 (Seed [9])))" by simp
  have e: "ephValidationPublicKey
      (fst (createEphemeralKeys toy (toy_keys ed25519 1) secp256k1 (Seed [9]))) =
      PublicKey [1, 9, 1]"
    by (simp add: createEphemeralKeys_def Let_def toy_def)
  have m: "validationPublicKey (toy_keys ed25519 1) = PublicKey [2, 6, 5]"
    by (simp add: toy_keys_def)
  show ?thesis
    using manifest_signatures_verify [OF toy_scheme toy_readable kt ek toy_keys_derived p]
    by (simp add: e m)
qed

theorem builder_leaves_identity_witness:
  "manifestReadable toy (toy_keys ed25519 1) secp256k1 (Seed [9]) \<and>
   snd (createEphemeralKeys toy (toy_keys ed25519 1) secp256k1 (Seed [9])) = toy_keys ed25519 1 \<and>
   decodeManifest toy
     (manifest (fst (createEphemeralKeys toy (toy_keys ed25519 1) secp256k1 (Seed [9]))))
     sfSequence = Some (STUInt32 1)"
  using builder_leaves_identity [of toy "toy_keys ed25519 1" secp256k1 "Seed [9]"] toy_readable
  by (simp add: toy_keys_def)

text \<open>
  C4 (as the claim states it) fails: the object handed to the master signing holds the
  ephemeral signature, yet the bytes signed are the prefix and the three pre-signature
  fields only, and the master signature still verifies when the ephemeral signature of
  the manifest is replaced by another value.
\<close>

theorem master_signature_ignores_ephemeral_signature:
  "ephemeralSigned toy (toy_keys ed25519 1) secp256k1 (Seed [9]) sfSignature =
     Some (STBlob [1, 9, 1, 77, 65, 78, 0, 0, 0, 1, 1, 1, 3, 2, 6, 5, 2, 1, 3, 1, 9, 1]) \<and>
   signingData toy (ephemeralSigned toy (toy_keys ed25519 1) secp256k1 (Seed [9]))
     HashPrefix_manifest = [77, 65, 78, 0, 0, 0, 1, 1, 1, 3, 2, 6, 5, 2, 1, 3, 1, 9, 1] \<and>
   verify toy
     ((signedManifest toy (toy_keys ed25519 1) secp256k1 (Seed [9]))
        (sfSignature \<mapsto> STBlob [0]))
     HashPrefix_manifest (validationPublicKey (toy_keys ed25519 1)) sfMasterSignature"
  by (simp add: fields_of_def canonical_fields_def isSigningField_def signedManifest_def
      ephemeralSigned_def unsignedManifest_def sign_def verify_def signingData_def toy_def
      toy_keys_def HashPrefix_manifest_def map_filter_simps)

theorem master_signature_over_pre_signature_record_witness:
  "signedManifest toy (toy_keys ed25519 1) secp256k1 (Seed [9]) sfMasterSignature =
     Some (STBlob [2, 6, 5, 77, 65, 78, 0, 0, 0, 1, 1, 1, 3, 2, 6, 5, 2, 1, 3, 1, 9, 1])"
  using master_signature_over_pre_signature_record [of toy "toy_keys ed25519 1" secp256k1 "Seed [9]"]
  by (simp add: preSignatureRecord_def toy_def toy_keys_def HashPrefix_manifest_def)

end
